theory Spec2Isabelle
  imports Main "HOL-Library.Word" "HOL-Library.AList"
begin

unbundle bit_operations_syntax

section \<open>Python values, strings and bytes\<close>

text \<open>
  A Python \<open>str\<close> is modelled by the list of the bytes of its UTF-8 encoding
  (\<^typ>\<open>string\<close>), a \<open>bytes\<close> object by a list of 8-bit words. The values the
  program puts into the query parameters are \<open>None\<close>, booleans, integers and strings.
\<close>

type_synonym bytes = "8 word list"

datatype pyval = PNone | PBool bool | PInt int | PStr string

text \<open>\<open>s.endswith(suf)\<close>\<close>

definition endswith :: "string \<Rightarrow> string \<Rightarrow> bool" where
  "endswith s suf = (length suf \<le> length s \<and> drop (length s - length suf) s = suf)"

text \<open>\<open>s.startswith(pre)\<close>\<close>

definition startswith :: "string \<Rightarrow> string \<Rightarrow> bool" where
  "startswith s pre = (take (length pre) s = pre)"

text \<open>\<open>sep.join(xs)\<close>\<close>

fun str_join :: "string \<Rightarrow> string list \<Rightarrow> string" where
  "str_join sep [] = []"
| "str_join sep [x] = x"
| "str_join sep (x # y # ys) = x @ sep @ str_join sep (y # ys)"

text \<open>\<open>s.split(d)\<close> for a separator of one character: the result is never empty.\<close>

fun str_split :: "char \<Rightarrow> string \<Rightarrow> string list" where
  "str_split d [] = [[]]"
| "str_split d (c # cs) =
     (if c = d then [] # str_split d cs
      else (case str_split d cs of
              [] \<Rightarrow> [[c]]
            | w # ws \<Rightarrow> (c # w) # ws))"

definition hexdigit_lower :: "nat \<Rightarrow> char" where
  "hexdigit_lower n = ''0123456789abcdef'' ! (n mod 16)"

definition hexdigit_upper :: "nat \<Rightarrow> char" where
  "hexdigit_upper n = ''0123456789ABCDEF'' ! (n mod 16)"

subsection \<open>\<open>repr\<close> of a string and \<open>str\<close> of a list of strings\<close>

text \<open>
  Python's \<open>repr\<close> of a \<open>str\<close>: double quotes when the string has a single quote
  and no double quote, single quotes otherwise; the quote character and the backslash are
  escaped, tab, newline and carriage return are written \<open>\t\<close>, \<open>\n\<close>, \<open>\r\<close>, the other
  ASCII control characters \<open>\xhh\<close>. Bytes of non-ASCII code points are copied, which is
  what Python does for every printable code point.
\<close>

definition repr_quote :: "string \<Rightarrow> char" where
  "repr_quote s =
     (if CHR 0x27 \<in> set s \<and> CHR 0x22 \<notin> set s then CHR 0x22 else CHR 0x27)"

definition repr_char :: "char \<Rightarrow> char \<Rightarrow> string" where
  "repr_char q c =
     (if c = q \<or> c = CHR 0x5C then [CHR 0x5C, c]
      else if c = CHR 0x09 then [CHR 0x5C, CHR ''t'']
      else if c = CHR 0x0A then [CHR 0x5C, CHR ''n'']
      else if c = CHR 0x0D then [CHR 0x5C, CHR ''r'']
      else if (of_char c :: nat) < 32 \<or> (of_char c :: nat) = 127
        then [CHR 0x5C, CHR ''x'',
              hexdigit_lower ((of_char c :: nat) div 16), hexdigit_lower (of_char c :: nat)]
      else [c])"

definition repr_str :: "string \<Rightarrow> string" where
  "repr_str s = (let q = repr_quote s in [q] @ concat (map (repr_char q) s) @ [q])"

text \<open>\<open>str(xs)\<close> for a list \<open>xs\<close> of strings, as an f-string formats it.\<close>

definition str_list :: "string list \<Rightarrow> string" where
  "str_list xs = ''['' @ str_join '', '' (map repr_str xs) @ '']''"

section \<open>Paths: \<open>os.path\<close> on POSIX\<close>

definition isabs :: "string \<Rightarrow> bool" where
  "isabs p = startswith p ''/''"

definition os_path_join :: "string \<Rightarrow> string \<Rightarrow> string" where
  "os_path_join a b =
     (if startswith b ''/'' then b
      else if a = [] \<or> endswith a ''/'' then a @ b
      else a @ ''/'' @ b)"

text \<open>
  The loop of \<open>normpath\<close> over the components: empty components and \<open>.\<close> are skipped,
  \<open>..\<close> removes the component before it, except at the start of a relative path or after
  another \<open>..\<close>, where it is kept; at the root it is dropped.
\<close>

definition norm_step :: "bool \<Rightarrow> string list \<Rightarrow> string \<Rightarrow> string list" where
  "norm_step initial_slashes new_comps component =
     (if component = [] \<or> component = ''.'' then new_comps
      else if component \<noteq> ''..'' \<or> (\<not> initial_slashes \<and> new_comps = [])
              \<or> (new_comps \<noteq> [] \<and> last new_comps = ''..'')
        then new_comps @ [component]
      else if new_comps \<noteq> [] then butlast new_comps
      else new_comps)"

definition initial_slashes :: "string \<Rightarrow> nat" where
  "initial_slashes path =
     (if \<not> startswith path ''/'' then 0
      else if startswith path ''//'' \<and> \<not> startswith path ''///'' then 2
      else 1)"

definition normpath :: "string \<Rightarrow> string" where
  "normpath path =
     (if path = [] then ''.''
      else
        let k = initial_slashes path;
            comps = foldl (norm_step (0 < k)) [] (str_split CHR ''/'' path);
            p = replicate k CHR ''/'' @ str_join ''/'' comps
        in if p = [] then ''.'' else p)"

text \<open>\<open>os.path.abspath(path)\<close> in a process whose working directory is \<open>wd\<close>.\<close>

definition os_path_abspath :: "string \<Rightarrow> string \<Rightarrow> string" where
  "os_path_abspath wd path =
     normpath (if \<not> isabs path then os_path_join wd path else path)"

section \<open>The file system\<close>

text \<open>
  The file system is the working directory of the process and the regular files, each
  under its absolute normalised path with its contents. Every call that takes a path
  (\<open>open\<close>, \<open>os.path.exists\<close>, \<open>os.listdir\<close>) resolves it against the working
  directory. Directories are not entries of their own: a directory lists the files
  directly inside it. Opening and writing a file succeed.
\<close>

record filesystem =
  cwd :: string
  entries :: "(string \<times> bytes) list"

definition resolve :: "filesystem \<Rightarrow> string \<Rightarrow> string" where
  "resolve fs path = os_path_abspath (cwd fs) path"

definition read_file :: "filesystem \<Rightarrow> string \<Rightarrow> bytes option" where
  "read_file fs path = map_of (entries fs) (resolve fs path)"

definition os_path_exists :: "filesystem \<Rightarrow> string \<Rightarrow> bool" where
  "os_path_exists fs path = (read_file fs path \<noteq> None)"

text \<open>\<open>open(path, "wb")\<close>: the file is created, or truncated when it is there.\<close>

definition open_wb :: "filesystem \<Rightarrow> string \<Rightarrow> filesystem" where
  "open_wb fs path = fs\<lparr>entries := AList.update (resolve fs path) [] (entries fs)\<rparr>"

text \<open>\<open>f.write(chunk)\<close> on the file opened at \<open>path\<close>: the chunk is appended.\<close>

definition file_write :: "string \<Rightarrow> bytes \<Rightarrow> filesystem \<Rightarrow> filesystem" where
  "file_write path chunk fs =
     (case read_file fs path of
        None \<Rightarrow> fs\<lparr>entries := AList.update (resolve fs path) chunk (entries fs)\<rparr>
      | Some old \<Rightarrow> fs\<lparr>entries := AList.update (resolve fs path) (old @ chunk) (entries fs)\<rparr>)"

text \<open>
  The name of a file directly inside directory \<open>d\<close> (an absolute normalised path), for
  the file's own path \<open>p\<close>; \<open>None\<close> when \<open>p\<close> is not directly inside \<open>d\<close>.
\<close>

definition child_name :: "string \<Rightarrow> string \<Rightarrow> string option" where
  "child_name d p =
     (let d' = (if endswith d ''/'' then d else d @ ''/'');
          n = drop (length d') p
      in if startswith p d' \<and> n \<noteq> [] \<and> CHR ''/'' \<notin> set n then Some n else None)"

definition os_listdir :: "filesystem \<Rightarrow> string \<Rightarrow> string list" where
  "os_listdir fs path = List.map_filter (\<lambda>(p, _). child_name (resolve fs path) p) (entries fs)"

definition generated_folder :: string where
  "generated_folder = ''generated''"

section \<open>HTTP responses of the application\<close>

text \<open>
  What an endpoint produces: a dictionary returned as the JSON body with status 200, a
  raised \<open>HTTPException\<close> with its status code and detail, or a \<open>FileResponse\<close> with
  the arguments the source gives it: the path, the media type and the download name.
\<close>

datatype response =
    JSONResponse "(string \<times> string) list"
  | HTTPException nat string
  | FileResponse string string string

fun status_code :: "response \<Rightarrow> nat" where
  "status_code (JSONResponse content) = 200"
| "status_code (HTTPException code detail) = code"
| "status_code (FileResponse path media_type filename) = 200"

text \<open>The content type of a response; a dictionary and an error detail are sent as JSON.\<close>

fun content_type :: "response \<Rightarrow> string" where
  "content_type (JSONResponse content) = ''application/json''"
| "content_type (HTTPException code detail) = ''application/json''"
| "content_type (FileResponse path media_type filename) = media_type"

text \<open>
  The bytes a \<open>FileResponse\<close> sends on a given file system: the contents of the file at
  its path. The other responses send no file.
\<close>

fun file_body :: "filesystem \<Rightarrow> response \<Rightarrow> bytes option" where
  "file_body fs (FileResponse path media_type filename) = read_file fs path"
| "file_body fs (JSONResponse content) = None"
| "file_body fs (HTTPException code detail) = None"

section \<open>Identifiers: \<open>uuid.uuid4\<close> and \<open>str\<close> of a UUID\<close>

text \<open>
  \<open>uuid4\<close> draws 128 random bits and sets the variant and the version: the argument is
  the random draw, as a 128-bit integer.
\<close>

definition uuid4 :: "128 word \<Rightarrow> 128 word" where
  "uuid4 r =
     (((r AND NOT (push_bit 48 0xc000)) OR push_bit 48 0x8000)
        AND NOT (push_bit 64 0xf000)) OR push_bit 76 4"

text \<open>\<open>'%032x' % n\<close>: 32 lower-case hexadecimal digits, the most significant first.\<close>

definition hex32 :: "128 word \<Rightarrow> string" where
  "hex32 w = map (\<lambda>i. hexdigit_lower (unat w div 16 ^ (31 - i))) [0..<32]"

definition str_uuid :: "128 word \<Rightarrow> string" where
  "str_uuid u =
     (let h = hex32 u
      in take 8 h @ ''-'' @ take 4 (drop 8 h) @ ''-'' @ take 4 (drop 12 h) @ ''-''
         @ take 4 (drop 16 h) @ ''-'' @ drop 20 h)"

text \<open>
  The canonical text of a UUID: five groups of 8, 4, 4, 4 and 12 lower-case hexadecimal
  digits, separated by hyphens.
\<close>

definition is_hex :: "char \<Rightarrow> bool" where
  "is_hex c = (c \<in> set ''0123456789abcdef'')"

definition canonical_uuid :: "string \<Rightarrow> bool" where
  "canonical_uuid s =
     (case str_split CHR ''-'' s of
        [a, b, c, d, e] \<Rightarrow>
          map length [a, b, c, d, e] = [8, 4, 4, 4, 12] \<and> list_all is_hex (a @ b @ c @ d @ e)
      | _ \<Rightarrow> False)"

section \<open>\<open>urllib.parse.quote\<close>\<close>

text \<open>
  Every byte of the UTF-8 encoding that is not a letter, a digit, one of \<open>_.-~\<close> or a
  character of \<open>safe\<close> is written as \<open>%\<close> and two upper-case hexadecimal digits.
\<close>

definition always_safe :: "char \<Rightarrow> bool" where
  "always_safe c =
     (c \<in> set (''ABCDEFGHIJKLMNOPQRSTUVWXYZ'' @ ''abcdefghijklmnopqrstuvwxyz''
               @ ''0123456789'' @ ''_.-~''))"

definition quoter :: "string \<Rightarrow> char \<Rightarrow> string" where
  "quoter safe c =
     (if always_safe c \<or> c \<in> set safe then [c]
      else [CHR ''%'', hexdigit_upper ((of_char c :: nat) div 16), hexdigit_upper (of_char c :: nat)])"

definition quote :: "string \<Rightarrow> string \<Rightarrow> string" where
  "quote s safe = concat (map (quoter safe) s)"

section \<open>The image fetcher: \<open>generate_image\<close>\<close>

text \<open>
  The request that \<open>requests.get(url, params=params, stream=True)\<close> sends, and what it
  gives back: a \<open>RequestException\<close> (the transport failed), or a response with its
  status code and the chunks that \<open>iter_content\<close> yields, whose concatenation is the
  response body.
\<close>

record request =
  url :: string
  params :: "(string \<times> pyval) list"
  stream :: bool

datatype http_outcome = RequestException string | Response nat "bytes list"

definition enhanced_prompt :: "string \<Rightarrow> string" where
  "enhanced_prompt prompt =
     prompt @ '', ''
     @ ''high resolution, highly detailed, sharp focus, ''
     @ ''professional photography, cinematic lighting, ''
     @ ''8k uhd, ray tracing, ambient lighting''"

definition negative_prompt :: string where
  "negative_prompt =
     ''blurry, low quality, low resolution, ''
     @ ''watermark, signature, oversaturated, ''
     @ ''distorted, deformed, pixelated''"

definition base_url :: string where
  "base_url = ''https://image.pollinations.ai/prompt''"

text \<open>
  The URL and the query parameters that \<open>generate_image\<close> builds from its arguments, in
  the order of its signature.
\<close>

definition outbound_request ::
  "string \<Rightarrow> string \<Rightarrow> pyval \<Rightarrow> int \<Rightarrow> int \<Rightarrow> int \<Rightarrow> int \<Rightarrow> pyval \<Rightarrow> pyval \<Rightarrow> pyval \<Rightarrow> pyval
   \<Rightarrow> request" where
  "outbound_request prompt model seed width height steps cfg_scale nologo private enhance safe =
     (let encoded_prompt = quote (enhanced_prompt prompt) ''/''
      in \<lparr>url = base_url @ ''/'' @ encoded_prompt,
          params =
            [(''width'', PInt width),
             (''height'', PInt height),
             (''model'', PStr model),
             (''steps'', PInt steps),
             (''cfg_scale'', PInt cfg_scale),
             (''sampler'', PStr ''DPM++ SDE Karras''),
             (''enhance'', enhance),
             (''nologo'', PBool True),
             (''negative_prompt'', PStr negative_prompt),
             (''upscale'', PBool True),
             (''upscale_amount'', PStr ''2'')],
          stream = True\<rparr>)"

text \<open>
  \<open>generate_image\<close>: \<open>net\<close> is the remote service (what \<open>requests.get\<close> gives for a
  request), \<open>rnd\<close> the random draw of \<open>uuid4\<close>, \<open>fs\<close> the file system before the call.
  The result is the returned value (\<open>None\<close> or the file name) and the file system after.
  \<open>raise_for_status\<close> raises for a status from 400 to 599, and the handler returns
  \<open>None\<close>; the \<open>print\<close> calls are left out.
\<close>

definition generate_image ::
  "(request \<Rightarrow> http_outcome) \<Rightarrow> 128 word \<Rightarrow> filesystem
   \<Rightarrow> string \<Rightarrow> string \<Rightarrow> pyval \<Rightarrow> int \<Rightarrow> int \<Rightarrow> int \<Rightarrow> int \<Rightarrow> pyval \<Rightarrow> pyval \<Rightarrow> pyval \<Rightarrow> pyval
   \<Rightarrow> string option \<times> filesystem" where
  "generate_image net rnd fs prompt model seed width height steps cfg_scale nologo private enhance safe =
     (let unique_filename = str_uuid (uuid4 rnd) @ ''.jpg'';
          file_path = os_path_join generated_folder unique_filename
      in case net (outbound_request prompt model seed width height steps cfg_scale
                     nologo private enhance safe) of
           RequestException e \<Rightarrow> (None, fs)
         | Response status chunks \<Rightarrow>
             if 400 \<le> status \<and> status < 600 then (None, fs)
             else if status = 200
               then (Some unique_filename, fold (file_write file_path) chunks (open_wb fs file_path))
             else (None, fs))"

section \<open>The request handler: \<open>POST /generate-image\<close>\<close>

record ImageRequest =
  prompt :: string
  width :: int
  height :: int
  enhance :: bool
  steps :: int

text \<open>
  The endpoint passes the request's fields, \<open>nologo=True\<close> and \<open>safe=True\<close>; the other
  arguments take the defaults of the signature (\<open>model="flux-pro"\<close>, \<open>seed=None\<close>,
  \<open>cfg_scale=9\<close>, \<open>private=None\<close>). \<open>if filename:\<close> holds for a string that is not empty.
\<close>

definition generate_image_endpoint ::
  "(request \<Rightarrow> http_outcome) \<Rightarrow> 128 word \<Rightarrow> filesystem \<Rightarrow> ImageRequest
   \<Rightarrow> response \<times> filesystem" where
  "generate_image_endpoint net rnd fs req =
     (case generate_image net rnd fs (prompt req) ''flux-pro'' PNone (width req) (height req)
             (steps req) 9 (PBool True) PNone (PBool (enhance req)) (PBool True) of
        (Some filename, fs') \<Rightarrow>
          if filename \<noteq> [] then (JSONResponse [(''file_path'', ''/image/'' @ filename)], fs')
          else (HTTPException 500 ''Image generation failed'', fs')
      | (None, fs') \<Rightarrow> (HTTPException 500 ''Image generation failed'', fs'))"

section \<open>The file server: \<open>GET /image/{filename}\<close>\<close>

text \<open>
  \<open>serve_image\<close>. The argument \<open>raised\<close> is what building the \<open>FileResponse\<close> inside
  the \<open>try\<close> block does: \<open>None\<close> when it returns, \<open>Some e\<close> when it raises an exception
  whose \<open>str\<close> is \<open>e\<close>. The function has no statement that writes, so the file system it
  returns is the one it was given; the \<open>print\<close> calls are left out.
\<close>

definition serve_image :: "string option \<Rightarrow> filesystem \<Rightarrow> string \<Rightarrow> response \<times> filesystem" where
  "serve_image raised fs filename0 =
     (let filename = (if \<not> endswith filename0 ''.jpg'' then filename0 @ ''.jpg'' else filename0);
          file_path = os_path_join generated_folder filename;
          abs_file_path = os_path_abspath (cwd fs) file_path
      in if \<not> os_path_exists fs abs_file_path
         then (HTTPException 404
                 (''Image not found. Available files: '' @ str_list (os_listdir fs generated_folder)),
               fs)
         else (case raised of
                 Some e \<Rightarrow> (HTTPException 500 (''Error serving file: '' @ e), fs)
               | None \<Rightarrow> (FileResponse abs_file_path ''image/jpeg'' filename, fs)))"

section \<open>A concrete installation\<close>

text \<open>
  A working directory with one stored image, a request, and three remote services: one
  that answers 200 with a body in two chunks, one that cannot be reached, and one that
  answers 503.
\<close>

definition demo_fs :: filesystem where
  "demo_fs = \<lparr>cwd = ''/srv/app'', entries = [(''/srv/app/generated/abc.jpg'', [1, 2, 3])]\<rparr>"

definition demo_request :: ImageRequest where
  "demo_request =
     \<lparr>prompt = ''a red bicycle'', width = 512, height = 512, enhance = True, steps = 20\<rparr>"

definition demo_net_ok :: "request \<Rightarrow> http_outcome" where
  "demo_net_ok r = Response 200 [[255, 216], [255]]"

definition demo_net_down :: "request \<Rightarrow> http_outcome" where
  "demo_net_down r = RequestException ''connection refused''"

definition demo_net_busy :: "request \<Rightarrow> http_outcome" where
  "demo_net_busy r = Response 503 []"

section \<open>Properties\<close>

lemma cwd_open_wb: "cwd (open_wb fs p) = cwd fs"
  by (simp add: open_wb_def)

lemma cwd_file_write: "cwd (file_write p c fs) = cwd fs"
  by (simp add: file_write_def split: option.splits)

lemma cwd_fold_file_write: "cwd (fold (file_write p) chunks fs) = cwd fs"
  by (induction chunks arbitrary: fs) (simp_all add: cwd_file_write)

lemma read_file_open_wb: "read_file (open_wb fs p) p = Some []"
  by (simp add: read_file_def open_wb_def resolve_def update_conv')

lemma read_file_file_write:
  "read_file fs p = Some old \<Longrightarrow> read_file (file_write p c fs) p = Some (old @ c)"
  by (simp add: read_file_def file_write_def resolve_def update_conv')

lemma read_file_fold_file_write:
  "read_file fs p = Some old \<Longrightarrow>
   read_file (fold (file_write p) chunks fs) p = Some (old @ concat chunks)"
proof (induction chunks arbitrary: fs old)
  case Nil
  then show ?case by simp
next
  case (Cons c chunks)
  have "read_file (file_write p c fs) p = Some (old @ c)"
    using Cons.prems by (rule read_file_file_write)
  from Cons.IH [OF this] show ?case by simp
qed

lemma written_file:
  "read_file (fold (file_write p) chunks (open_wb fs p)) p = Some (concat chunks)"
  using read_file_fold_file_write [OF read_file_open_wb] by simp

text \<open>
  C1: when the remote service answers the request with status 200, \<open>generate_image\<close>
  returns a file name, and in the file system it returns the file of that name in the
  storage directory exists and holds exactly the response body, the concatenation of the
  chunks received.
\<close>

theorem generate_image_saves_body:
  assumes "net (outbound_request p m sd w h st cfg
                  nl pr en sf) = Response 200 chunks"
  shows "\<exists>filename fs'.
           generate_image net rnd fs p m sd w h st cfg
             nl pr en sf = (Some filename, fs')
           \<and> os_path_exists fs' (os_path_join generated_folder filename)
           \<and> read_file fs' (os_path_join generated_folder filename) = Some (concat chunks)"
  using assms by (simp add: generate_image_def Let_def os_path_exists_def written_file)

text \<open>
  C2: when the request fails at transport level (\<open>RequestException\<close>) or the answer has
  a status other than 200, the endpoint raises \<open>HTTPException\<close> with status 500 and the
  file system is the one before the call.
\<close>

theorem generation_failure_gives_500:
  assumes "net (outbound_request (prompt req) ''flux-pro'' PNone (width req) (height req)
                  (steps req) 9 (PBool True) PNone (PBool (enhance req)) (PBool True)) = out"
    and "(\<exists>e. out = RequestException e) \<or> (\<exists>status chunks. out = Response status chunks \<and> status \<noteq> 200)"
  shows "generate_image_endpoint net rnd fs req = (HTTPException 500 ''Image generation failed'', fs)"
  using assms by (auto simp: generate_image_endpoint_def generate_image_def Let_def)

text \<open>
  C8: when the file exists and building the response raises an exception with message
  \<open>e\<close>, the endpoint answers 500 and the detail ends with \<open>e\<close>.
\<close>

theorem serve_image_error_gives_500:
  assumes "os_path_exists fs (os_path_abspath (cwd fs) (os_path_join generated_folder
             (if \<not> endswith filename ''.jpg'' then filename @ ''.jpg'' else filename)))"
  shows "serve_image (Some e) fs filename = (HTTPException 500 (''Error serving file: '' @ e), fs)"
  using assms by (simp add: serve_image_def)

text \<open>
  C10: \<open>seed\<close>, \<open>nologo\<close>, \<open>private\<close> and \<open>safe\<close> have no effect: two calls that differ
  only in them build the same request (URL and query parameters) and have the same result
  and the same file system afterwards.
\<close>

theorem unused_arguments_have_no_effect:
  "outbound_request p m sd w h st cfg nl pr en sf
     = outbound_request p m sd' w h st cfg nl' pr' en sf'
   \<and> generate_image net rnd fs p m sd w h st cfg nl pr en sf
     = generate_image net rnd fs p m sd' w h st cfg nl' pr' en sf'"
  by (simp add: outbound_request_def generate_image_def)

lemma quoter_nonempty: "quoter safe c \<noteq> []"
  by (simp add: quoter_def)

lemma quote_append: "quote (a @ b) safe = quote a safe @ quote b safe"
  by (simp add: quote_def)

lemma quote_Cons: "quote (c # cs) safe = quoter safe c @ quote cs safe"
  by (simp add: quote_def)

text \<open>
  C4: the URL of the request is the base URL, a slash and the URL-encoding of the derived
  prompt; the derived prompt is the user's prompt followed by the fixed suffix; and the URL
  is never the one that the raw prompt alone would give.
\<close>

theorem url_carries_enhanced_prompt:
  "url (outbound_request p m sd w h st cfg nl pr en sf)
     = base_url @ ''/'' @ quote (enhanced_prompt p) ''/''
   \<and> enhanced_prompt p = p @ '', high resolution, highly detailed, sharp focus, professional photography, cinematic lighting, 8k uhd, ray tracing, ambient lighting''
   \<and> url (outbound_request p m sd w h st cfg nl pr en sf)
     \<noteq> base_url @ ''/'' @ quote p ''/''"
proof -
  have "quote (enhanced_prompt p) ''/'' \<noteq> quote p ''/''"
    by (simp add: enhanced_prompt_def quote_append quote_Cons quoter_nonempty)
  then show ?thesis
    by (simp add: outbound_request_def enhanced_prompt_def)
qed

text \<open>
  C6: a file name that does not end in \<open>.jpg\<close> gets exactly the response of the same
  name with \<open>.jpg\<close> appended, on the same file system.
\<close>

theorem serve_image_extension_optional:
  "\<not> endswith f ''.jpg'' \<Longrightarrow> serve_image raised fs f = serve_image raised fs (f @ ''.jpg'')"
  by (simp add: serve_image_def endswith_def)

theorem serve_image_extension_optional_witness:
  "\<not> endswith ''abc'' ''.jpg'' \<and>
   serve_image None demo_fs ''abc'' = serve_image None demo_fs ''abc.jpg''"
  using serve_image_extension_optional [of "''abc''" None demo_fs]
  by (simp add: endswith_def)

end
